theory Spec2Isabelle
  imports Main
begin

section \<open>Data model of kfmodel.py\<close>

text \<open>
  The values that travel through the pipeline are dynamically typed Python objects.
  Only the shapes that the source inspects with \<^verbatim>\<open>isinstance\<close> are distinguished:
  JSON-like values, byte buffers, the two external wrapper types (CloudEvent,
  ServeRequest), the two typed inference messages, and coroutine objects (the result of
  calling an \<^verbatim>\<open>async def\<close> without awaiting it).  A dict is an association list
  with string keys; lookups go through \<open>map_of\<close>.
\<close>

datatype stage_name = Preprocess | Explain | Predict | Postprocess

datatype pyval =
    VNone
  | VBool bool
  | VInt int
  | VStr string
  | VBytes string
  | VList "pyval list"
  | VDict "(string \<times> pyval) list"
  | VCloudEvent "(string \<times> pyval) list" pyval
  | VServeRequest pyval
  | VModelInferRequest string
  | VModelInferResponse string
  | VCoroutine stage_name pyval

text \<open>
  Exceptions as values.  \<open>HTTPError status_code reason\<close> is \<^verbatim>\<open>tornado.web.HTTPError\<close>;
  \<open>JSONDecodeError\<close>, \<open>TypeError\<close> and \<open>TransportError\<close> are what the external
  collaborators (json, the HTTP client, the gRPC stub) raise.
\<close>

datatype error =
    HTTPError int string
  | NotImplementedError
  | KeyError string
  | TypeError
  | JSONDecodeError string
  | TransportError string

datatype ModelType = EXPLAINER | PREDICTOR

definition PREDICTOR_URL_FORMAT :: string where
  "PREDICTOR_URL_FORMAT = ''http://{0}/v1/models/{1}:predict''"

definition EXPLAINER_URL_FORMAT :: string where
  "EXPLAINER_URL_FORMAT = ''http://{0}/v1/models/{1}:explain''"

definition PREDICTOR_V2_URL_FORMAT :: string where
  "PREDICTOR_V2_URL_FORMAT = ''http://{0}/v2/models/{1}/infer''"

definition EXPLAINER_V2_URL_FORMAT :: string where
  "EXPLAINER_V2_URL_FORMAT = ''http://{0}/v2/models/{1}/explain''"

text \<open>The values of the enum \<^verbatim>\<open>PredictorProtocol\<close>.\<close>

definition REST_V1 :: string where "REST_V1 = ''v1''"
definition REST_V2 :: string where "REST_V2 = ''v2''"
definition GRPC_V2 :: string where "GRPC_V2 = ''grpc-v2''"

text \<open>
  \<^verbatim>\<open>fmt.format(a, b)\<close> for a format string whose only replacement fields are
  \<^verbatim>\<open>{0}\<close> and \<^verbatim>\<open>{1}\<close>, as in the four URL templates.
\<close>

fun format2 :: "string \<Rightarrow> string \<Rightarrow> string \<Rightarrow> string" where
  "format2 [] a b = []"
| "format2 (c # cs) a b =
     (if c = CHR ''{'' \<and> take 2 cs = ''0}'' then a @ format2 (drop 2 cs) a b
      else if c = CHR ''{'' \<and> take 2 cs = ''1}'' then b @ format2 (drop 2 cs) a b
      else c # format2 cs a b)"

text \<open>Python's \<^verbatim>\<open>str(x)\<close> for an optional host: \<^verbatim>\<open>None\<close> prints as its name.\<close>

definition str_host :: "string option \<Rightarrow> string" where
  "str_host h = (case h of None \<Rightarrow> ''None'' | Some s \<Rightarrow> s)"

subsection \<open>Dict and isinstance helpers\<close>

definition contains :: "(string \<times> pyval) list \<Rightarrow> string \<Rightarrow> bool" where
  "contains d k = (case map_of d k of None \<Rightarrow> False | Some v \<Rightarrow> True)"

definition isinstance_list :: "pyval \<Rightarrow> bool" where
  "isinstance_list v = (case v of VList xs \<Rightarrow> True | _ \<Rightarrow> False)"

text \<open>\<^verbatim>\<open>k in d and not isinstance(d[k], list)\<close>\<close>

definition present_not_list :: "(string \<times> pyval) list \<Rightarrow> string \<Rightarrow> bool" where
  "present_not_list d k =
     (case map_of d k of None \<Rightarrow> False | Some v \<Rightarrow> \<not> isinstance_list v)"

definition BAD_REQUEST :: int where "BAD_REQUEST = 400"

definition expected_list_reason :: string where
  "expected_list_reason =
     ''Expected '' @ [CHR 0x22] @ ''instances'' @ [CHR 0x22] @ '' or '' @
     [CHR 0x22] @ ''inputs'' @ [CHR 0x22] @ '' to be a list''"

definition validate :: "pyval \<Rightarrow> error + pyval" where
  "validate request =
     (case request of
        VDict d \<Rightarrow>
          if present_not_list d ''instances'' \<or> present_not_list d ''inputs''
          then Inl (HTTPError BAD_REQUEST expected_list_reason)
          else Inr request
      | _ \<Rightarrow> Inr request)"


section \<open>The serving unit, its collaborators and the outbound calls\<close>

datatype http_client = AsyncHTTPClient

text \<open>The stub is bound to the channel target it was created with.\<close>

datatype grpc_stub = GRPCInferenceServiceStub string

record kfmodel =
  name :: string
  ready :: bool
  protocol :: string
  predictor_host :: "string option"
  explainer_host :: "string option"
  timeout :: int
  http_client_instance :: "http_client option"
  grpc_client_stub :: "grpc_stub option"

definition init :: "string \<Rightarrow> kfmodel" where
  "init n = \<lparr> name = n, ready = False, protocol = REST_V1,
              predictor_host = None, explainer_host = None, timeout = 600,
              http_client_instance = None, grpc_client_stub = None \<rparr>"

definition load :: "kfmodel \<Rightarrow> bool \<times> kfmodel" where
  "load self = (True, self\<lparr>ready := True\<rparr>)"

text \<open>
  Every outbound network call is recorded: an HTTP fetch with its url, method, timeout
  and body, or a gRPC \<^verbatim>\<open>ModelInfer\<close> with the stub's target, the request and the timeout.
\<close>

datatype net_call =
    HttpFetch string string int string
  | GrpcModelInfer string pyval int

record world =
  model :: kfmodel
  calls :: "net_call list"

text \<open>
  The external collaborators, which are not code of this repository, are parameters:
  \<^item> \<open>json_loads\<close>: \<^verbatim>\<open>json.loads\<close> on a byte buffer (with the UTF-8 decoding in front);
    \<open>Inl\<close> carries the text of the JSONDecodeError or UnicodeDecodeError;
  \<^item> \<open>json_dumps\<close>: \<^verbatim>\<open>json.dumps\<close>; \<open>None\<close> is its TypeError on a value that is not
    serialisable;
  \<^item> \<open>fetch\<close>: the HTTP transport, from (url, method, timeout, body) to a response
    (code, body) or a transport fault;
  \<^item> \<open>ModelInfer\<close>: the gRPC transport, from (target, request, timeout) to a response or a fault;
  \<^item> \<open>get_response\<close>: \<^verbatim>\<open>InferResult(r).get_response(as_json=True)\<close>.
\<close>

record env =
  json_loads :: "string \<Rightarrow> string + pyval"
  json_dumps :: "pyval \<Rightarrow> string option"
  fetch :: "string \<Rightarrow> string \<Rightarrow> int \<Rightarrow> string \<Rightarrow> string + (int \<times> string)"
  ModelInfer :: "string \<Rightarrow> pyval \<Rightarrow> int \<Rightarrow> string + pyval"
  get_response :: "pyval \<Rightarrow> pyval"

type_synonym stage_fn = "world \<Rightarrow> pyval \<Rightarrow> (error + pyval) \<times> world"

subsection \<open>Lazily created clients\<close>

definition http_client :: "world \<Rightarrow> http_client \<times> world" where
  "http_client w =
     (case http_client_instance (model w) of
        None \<Rightarrow> (AsyncHTTPClient,
                 w\<lparr>model := (model w)\<lparr>http_client_instance := Some AsyncHTTPClient\<rparr>\<rparr>)
      | Some c \<Rightarrow> (c, w))"

text \<open>
  \<^verbatim>\<open>":" not in self.predictor_host\<close> raises TypeError when the host is \<^verbatim>\<open>None\<close>.
\<close>

definition grpc_client :: "world \<Rightarrow> (error + grpc_stub) \<times> world" where
  "grpc_client w =
     (case grpc_client_stub (model w) of
        None \<Rightarrow>
          (case predictor_host (model w) of
             None \<Rightarrow> (Inl TypeError, w)
           | Some h \<Rightarrow>
               let h' = (if CHR '':'' \<notin> set h then h @ '':80'' else h);
                   stub = GRPCInferenceServiceStub h'
               in (Inr stub,
                   w\<lparr>model := (model w)\<lparr>predictor_host := Some h',
                                          grpc_client_stub := Some stub\<rparr>\<rparr>))
      | Some stub \<Rightarrow> (Inr stub, w))"

subsection \<open>The stages\<close>

definition unrecognized_reason :: "string \<Rightarrow> string" where
  "unrecognized_reason e = ''Unrecognized request format: '' @ e"

definition json_content_type :: "(string \<times> pyval) list \<Rightarrow> bool" where
  "json_content_type attributes =
     (case map_of attributes ''content-type'' of
        None \<Rightarrow> False
      | Some ct \<Rightarrow> ct = VStr ''application/cloudevents+json'' \<or> ct = VStr ''application/json'')"

definition is_structured_dict :: "(string \<times> pyval) list \<Rightarrow> bool" where
  "is_structured_dict d =
     (contains d ''time'' \<and> contains d ''type'' \<and> contains d ''source'' \<and>
      contains d ''id'' \<and> contains d ''specversion'' \<and> contains d ''data'')"

definition preprocess :: "env \<Rightarrow> stage_fn" where
  "preprocess E w request =
     (case request of
        VCloudEvent attributes data \<Rightarrow>
          (case data of
             VBytes b \<Rightarrow>
               (case json_loads E b of
                  Inr v \<Rightarrow> (Inr v, w)
                | Inl e \<Rightarrow>
                    if json_content_type attributes
                    then (Inl (HTTPError BAD_REQUEST (unrecognized_reason e)), w)
                    else (Inr data, w))
           | _ \<Rightarrow> (Inr data, w))
      | VServeRequest body \<Rightarrow> (Inr body, w)
      | VDict d \<Rightarrow>
          if is_structured_dict d
          then (case map_of d ''data'' of
                  Some v \<Rightarrow> (Inr v, w)
                | None \<Rightarrow> (Inl (KeyError ''data''), w))
          else (Inr request, w)
      | _ \<Rightarrow> (Inr request, w))"

definition postprocess :: "env \<Rightarrow> stage_fn" where
  "postprocess E w response =
     (case response of
        VModelInferResponse m \<Rightarrow> (Inr (get_response E response), w)
      | _ \<Rightarrow> (Inr response, w))"

text \<open>
  The tail shared by \<^verbatim>\<open>_http_predict\<close> and \<^verbatim>\<open>explain\<close>: look the client up, serialise
  the body, fetch, and turn the response into a value or an error.
\<close>

definition http_post :: "env \<Rightarrow> string \<Rightarrow> stage_fn" where
  "http_post E url w request =
     (let (client, w1) = http_client w in
      case json_dumps E request of
        None \<Rightarrow> (Inl TypeError, w1)
      | Some body \<Rightarrow>
          let w2 = w1\<lparr>calls := calls w1 @ [HttpFetch url ''POST'' (timeout (model w1)) body]\<rparr> in
          case fetch E url ''POST'' (timeout (model w1)) body of
            Inl fault \<Rightarrow> (Inl (TransportError fault), w2)
          | Inr (code, rbody) \<Rightarrow>
              if code \<noteq> 200 then (Inl (HTTPError code rbody), w2)
              else (case json_loads E rbody of
                      Inl e \<Rightarrow> (Inl (JSONDecodeError e), w2)
                    | Inr v \<Rightarrow> (Inr v, w2)))"

text \<open>The local \<^verbatim>\<open>predict_url\<close> of \<^verbatim>\<open>_http_predict\<close>, after its two assignments.\<close>

definition predict_url :: "kfmodel \<Rightarrow> string" where
  "predict_url self =
     (let predict_url = format2 PREDICTOR_URL_FORMAT (str_host (predictor_host self)) (name self)
      in if protocol self = REST_V2
         then format2 PREDICTOR_V2_URL_FORMAT (str_host (predictor_host self)) (name self)
         else predict_url)"

definition http_predict :: "env \<Rightarrow> stage_fn" where
  "http_predict E w request = http_post E (predict_url (model w)) w request"

definition grpc_predict :: "env \<Rightarrow> stage_fn" where
  "grpc_predict E w request =
     (case grpc_client w of
        (Inl e, w1) \<Rightarrow> (Inl e, w1)
      | (Inr (GRPCInferenceServiceStub target), w1) \<Rightarrow>
          let w2 = w1\<lparr>calls := calls w1 @ [GrpcModelInfer target request (timeout (model w1))]\<rparr> in
          case ModelInfer E target request (timeout (model w1)) of
            Inl fault \<Rightarrow> (Inl (TransportError fault), w2)
          | Inr r \<Rightarrow> (Inr r, w2))"

text \<open>\<^verbatim>\<open>not self.predictor_host\<close>: true for \<^verbatim>\<open>None\<close> and for the empty string.\<close>

definition falsy :: "string option \<Rightarrow> bool" where
  "falsy h = (case h of None \<Rightarrow> True | Some s \<Rightarrow> s = [])"

definition predict :: "env \<Rightarrow> stage_fn" where
  "predict E w request =
     (if falsy (predictor_host (model w)) then (Inl NotImplementedError, w)
      else if protocol (model w) = GRPC_V2 then grpc_predict E w request
      else http_predict E w request)"

text \<open>The local \<^verbatim>\<open>explain_url\<close> of \<^verbatim>\<open>explain\<close>, after its two assignments.\<close>

definition explain_url :: "kfmodel \<Rightarrow> string" where
  "explain_url self =
     (let explain_url = format2 EXPLAINER_URL_FORMAT (str_host (explainer_host self)) (name self)
      in if protocol self = REST_V2
         then format2 EXPLAINER_V2_URL_FORMAT (str_host (explainer_host self)) (name self)
         else explain_url)"

definition explain :: "env \<Rightarrow> stage_fn" where
  "explain E w request =
     (if explainer_host (model w) = None then (Inl NotImplementedError, w)
      else http_post E (explain_url (model w)) w request)"

section \<open>The orchestrator\<close>

text \<open>
  A stage is a method that a subclass may override, either as a plain function or as a
  coroutine function (\<^verbatim>\<open>async def\<close>).  Calling a plain function runs it; calling a
  coroutine function runs nothing and returns a coroutine object, which remembers the
  function and its argument; awaiting that object runs the body.
\<close>

datatype stage = SyncFn stage_fn | CoroFn stage_fn

record stages =
  s_preprocess :: stage
  s_explain :: stage
  s_predict :: stage
  s_postprocess :: stage

definition stage_of :: "stages \<Rightarrow> stage_name \<Rightarrow> stage" where
  "stage_of S nm =
     (case nm of Preprocess \<Rightarrow> s_preprocess S | Explain \<Rightarrow> s_explain S
               | Predict \<Rightarrow> s_predict S | Postprocess \<Rightarrow> s_postprocess S)"

definition iscoroutinefunction :: "stage \<Rightarrow> bool" where
  "iscoroutinefunction st = (case st of CoroFn f \<Rightarrow> True | SyncFn f \<Rightarrow> False)"

definition body_of :: "stage \<Rightarrow> stage_fn" where
  "body_of st = (case st of CoroFn f \<Rightarrow> f | SyncFn f \<Rightarrow> f)"

text \<open>\<^verbatim>\<open>self.stage(x)\<close>\<close>

definition call_stage :: "stages \<Rightarrow> stage_name \<Rightarrow> stage_fn" where
  "call_stage S nm w x =
     (case stage_of S nm of
        SyncFn f \<Rightarrow> f w x
      | CoroFn f \<Rightarrow> (Inr (VCoroutine nm x), w))"

text \<open>\<^verbatim>\<open>await v\<close>: only a coroutine object can be awaited here.\<close>

definition await :: "stages \<Rightarrow> stage_fn" where
  "await S w v =
     (case v of
        VCoroutine nm x \<Rightarrow> body_of (stage_of S nm) w x
      | _ \<Rightarrow> (Inl TypeError, w))"

text \<open>
  \<^verbatim>\<open>(await self.stage(x)) if inspect.iscoroutinefunction(self.stage) else self.stage(x)\<close>
\<close>

definition await_or_call :: "stages \<Rightarrow> stage_name \<Rightarrow> stage_fn" where
  "await_or_call S nm w x =
     (if iscoroutinefunction (stage_of S nm)
      then (case call_stage S nm w x of
              (Inl e, w1) \<Rightarrow> (Inl e, w1)
            | (Inr c, w1) \<Rightarrow> await S w1 c)
      else call_stage S nm w x)"

text \<open>
  \<^verbatim>\<open>KFModel.__call__\<close>.  The final \<^verbatim>\<open>else: raise NotImplementedError\<close> of the source is
  for a \<^verbatim>\<open>model_type\<close> outside the enum, which \<open>ModelType\<close> excludes.
\<close>

definition call :: "stages \<Rightarrow> world \<Rightarrow> pyval \<Rightarrow> ModelType \<Rightarrow> (error + pyval) \<times> world" where
  "call S w body model_type =
     (case await_or_call S Preprocess w body of
        (Inl e, w1) \<Rightarrow> (Inl e, w1)
      | (Inr request0, w1) \<Rightarrow>
          (case validate request0 of
             Inl e \<Rightarrow> (Inl e, w1)
           | Inr request \<Rightarrow>
               (case (case model_type of
                        EXPLAINER \<Rightarrow> await_or_call S Explain w1 request
                      | PREDICTOR \<Rightarrow> await_or_call S Predict w1 request) of
                  (Inl e, w2) \<Rightarrow> (Inl e, w2)
                | (Inr response, w2) \<Rightarrow> call_stage S Postprocess w2 response)))"

text \<open>The stages as \<^verbatim>\<open>KFModel\<close> itself defines them.\<close>

definition KFModel :: "env \<Rightarrow> stages" where
  "KFModel E = \<lparr> s_preprocess = CoroFn (preprocess E), s_explain = CoroFn (explain E),
                 s_predict = CoroFn (predict E), s_postprocess = SyncFn (postprocess E) \<rparr>"

text \<open>Replacing one stage, as a subclass does.\<close>

definition override :: "stages \<Rightarrow> stage_name \<Rightarrow> stage \<Rightarrow> stages" where
  "override S nm st =
     (case nm of Preprocess \<Rightarrow> S\<lparr>s_preprocess := st\<rparr> | Explain \<Rightarrow> S\<lparr>s_explain := st\<rparr>
               | Predict \<Rightarrow> S\<lparr>s_predict := st\<rparr> | Postprocess \<Rightarrow> S\<lparr>s_postprocess := st\<rparr>)"

subsection \<open>Observations on a run\<close>

text \<open>Whether a recorded outbound call went through the gRPC stub.\<close>

definition is_grpc :: "net_call \<Rightarrow> bool" where
  "is_grpc c = (case c of GrpcModelInfer target request t \<Rightarrow> True | HttpFetch url m t b \<Rightarrow> False)"

text \<open>Decoding the result of decoding: \<^verbatim>\<open>preprocess(preprocess(p))\<close>, the first failure ending the run.\<close>

definition preprocess_twice :: "env \<Rightarrow> stage_fn" where
  "preprocess_twice E w p =
     (case preprocess E w p of
        (Inl e, w1) \<Rightarrow> (Inl e, w1)
      | (Inr q, w1) \<Rightarrow> preprocess E w1 q)"

subsection \<open>A stubbed set of collaborators\<close>

text \<open>
  A small stand-in for the external libraries, for evaluating the pipeline on concrete
  inputs: the JSON codec knows the empty object only, the HTTP transport answers every
  request with status 500 and body \<^verbatim>\<open>boom\<close>, the gRPC transport echoes a fixed response.
\<close>

definition stub_env :: env where
  "stub_env = \<lparr> json_loads = (\<lambda>b. if b = ''{}'' then Inr (VDict []) else Inl ''Expecting value''),
                json_dumps = (\<lambda>v. if v = VDict [] then Some ''{}'' else None),
                fetch = (\<lambda>url method t body. Inr (500, ''boom'')),
                ModelInfer = (\<lambda>target request t. Inr (VModelInferResponse ''ok'')),
                get_response = (\<lambda>r. VDict []) \<rparr>"

definition world0 :: "kfmodel \<Rightarrow> world" where
  "world0 m = \<lparr> model = m, calls = [] \<rparr>"

text \<open>A unit with both hosts configured, and the six-key mapping carrying \<open>d\<close> as its data.\<close>

definition served :: kfmodel where
  "served = (init ''m'')\<lparr>predictor_host := Some ''predictor'', explainer_host := Some ''explainer''\<rparr>"

definition structured :: "pyval \<Rightarrow> pyval" where
  "structured d = VDict [(''time'', VStr ''2021-01-01T00:00:00Z''), (''type'', VStr ''t''),
                         (''source'', VStr ''s''), (''id'', VStr ''1''),
                         (''specversion'', VStr ''1.0''), (''data'', d)]"

section \<open>Basic facts about the stages\<close>

lemma format2_predict_v1:
  "format2 PREDICTOR_URL_FORMAT h n = ''http://'' @ h @ ''/v1/models/'' @ n @ '':predict''"
  by (simp add: PREDICTOR_URL_FORMAT_def)

lemma format2_predict_v2:
  "format2 PREDICTOR_V2_URL_FORMAT h n = ''http://'' @ h @ ''/v2/models/'' @ n @ ''/infer''"
  by (simp add: PREDICTOR_V2_URL_FORMAT_def)

lemma format2_explain_v1:
  "format2 EXPLAINER_URL_FORMAT h n = ''http://'' @ h @ ''/v1/models/'' @ n @ '':explain''"
  by (simp add: EXPLAINER_URL_FORMAT_def)

lemma format2_explain_v2:
  "format2 EXPLAINER_V2_URL_FORMAT h n = ''http://'' @ h @ ''/v2/models/'' @ n @ ''/explain''"
  by (simp add: EXPLAINER_V2_URL_FORMAT_def)

lemma await_or_call_body: "await_or_call S nm w x = body_of (stage_of S nm) w x"
  by (cases "stage_of S nm")
     (simp_all add: await_or_call_def iscoroutinefunction_def call_stage_def await_def body_of_def)

lemma stage_of_KFModel:
  "stage_of (KFModel E) Preprocess = CoroFn (preprocess E)"
  "stage_of (KFModel E) Explain = CoroFn (explain E)"
  "stage_of (KFModel E) Predict = CoroFn (predict E)"
  "stage_of (KFModel E) Postprocess = SyncFn (postprocess E)"
  by (simp_all add: stage_of_def KFModel_def)

lemma preprocess_world: "snd (preprocess E w x) = w"
  by (simp add: preprocess_def split: pyval.splits sum.splits option.splits)

lemma postprocess_world: "snd (postprocess E w x) = w"
  by (simp add: postprocess_def split: pyval.splits)

lemma call_stage_postprocess:
  "call_stage (KFModel E) Postprocess = postprocess E"
  by (rule ext, rule ext) (simp add: call_stage_def stage_of_KFModel)

lemma call_KFModel:
  "call (KFModel E) w body mt =
     (case fst (preprocess E w body) of
        Inl e \<Rightarrow> (Inl e, w)
      | Inr request0 \<Rightarrow>
          (case validate request0 of
             Inl e \<Rightarrow> (Inl e, w)
           | Inr request \<Rightarrow>
               (case (case mt of EXPLAINER \<Rightarrow> explain E w request
                               | PREDICTOR \<Rightarrow> predict E w request) of
                  (Inl e, w2) \<Rightarrow> (Inl e, w2)
                | (Inr response, w2) \<Rightarrow> postprocess E w2 response)))"
proof -
  obtain r where r: "preprocess E w body = (r, w)"
    using preprocess_world [of E w body] by (cases "preprocess E w body") simp
  show ?thesis
    unfolding call_def call_stage_postprocess await_or_call_body stage_of_KFModel body_of_def
      stage.case
    by (cases mt) (simp_all add: r split: sum.split)
qed

lemma validate_Inr: "validate r = Inr r' \<Longrightarrow> r' = r"
  by (auto simp: validate_def split: pyval.splits if_splits)

lemma http_client_snd:
  "snd (http_client w) = w\<lparr>model := (model w)\<lparr>http_client_instance := Some (fst (http_client w))\<rparr>\<rparr>"
  by (cases "http_client_instance (model w)") (simp_all add: http_client_def)

lemma http_post_snd:
  "snd (http_post E url w r) =
     (snd (http_client w))\<lparr>calls := calls w @
        (case json_dumps E r of None \<Rightarrow> []
         | Some b \<Rightarrow> [HttpFetch url ''POST'' (timeout (model w)) b])\<rparr>"
  by (cases "http_client_instance (model w)")
     (simp_all add: http_post_def http_client_def Let_def split: option.splits sum.splits prod.splits)

lemma http_post_calls:
  "json_dumps E r = Some b \<Longrightarrow>
   calls (snd (http_post E url w r)) = calls w @ [HttpFetch url ''POST'' (timeout (model w)) b]"
  by (simp add: http_post_snd)

lemma http_post_no_dumps:
  "json_dumps E r = None \<Longrightarrow> calls (snd (http_post E url w r)) = calls w"
  by (simp add: http_post_snd)

lemma http_post_model:
  "model (snd (http_post E url w r)) =
     (model w)\<lparr>http_client_instance := Some (fst (http_client w))\<rparr>"
  by (simp add: http_post_snd) (subst http_client_snd, simp)

lemma http_post_non200:
  "json_dumps E r = Some b \<Longrightarrow> fetch E url ''POST'' (timeout (model w)) b = Inr (s, rb) \<Longrightarrow>
   s \<noteq> 200 \<Longrightarrow> fst (http_post E url w r) = Inl (HTTPError s rb)"
  by (cases "http_client_instance (model w)") (simp_all add: http_post_def http_client_def Let_def)


lemma http_post_no_grpc:
  "filter is_grpc (calls (snd (http_post E url w r))) = filter is_grpc (calls w)"
  by (simp add: http_post_snd is_grpc_def http_client_def split: option.splits)

lemma http_post_stub:
  "grpc_client_stub (model (snd (http_post E url w r))) = grpc_client_stub (model w)"
  by (simp add: http_post_model)

lemma grpc_predict_calls:
  "predictor_host (model w) = Some h \<Longrightarrow>
   \<exists>target. calls (snd (grpc_predict E w r)) = calls w @ [GrpcModelInfer target r (timeout (model w))]
     \<and> grpc_client_stub (model (snd (grpc_predict E w r))) = Some (GRPCInferenceServiceStub target)"
  apply (cases "grpc_client_stub (model w)")
   apply (simp add: grpc_predict_def grpc_client_def Let_def split: sum.splits)
  subgoal for stub
    by (cases stub) (simp add: grpc_predict_def grpc_client_def Let_def split: sum.splits)
  done

lemma predict_falsy:
  "falsy (predictor_host (model w)) \<Longrightarrow> predict E w r = (Inl NotImplementedError, w)"
  by (simp add: predict_def)

lemma explain_None:
  "explainer_host (model w) = None \<Longrightarrow> explain E w r = (Inl NotImplementedError, w)"
  by (simp add: explain_def)

lemma explain_Some:
  "explainer_host (model w) = Some h \<Longrightarrow> explain E w r = http_post E (explain_url (model w)) w r"
  by (simp add: explain_def)

lemma predict_http:
  "\<not> falsy (predictor_host (model w)) \<Longrightarrow> protocol (model w) \<noteq> GRPC_V2 \<Longrightarrow>
   predict E w r = http_post E (predict_url (model w)) w r"
  by (simp add: predict_def http_predict_def)

lemma predict_grpc:
  "\<not> falsy (predictor_host (model w)) \<Longrightarrow> protocol (model w) = GRPC_V2 \<Longrightarrow>
   predict E w r = grpc_predict E w r"
  by (simp add: predict_def)

lemma explain_no_grpc:
  "filter is_grpc (calls (snd (explain E w r))) = filter is_grpc (calls w)"
  by (cases "explainer_host (model w)") (simp_all add: explain_None explain_Some http_post_no_grpc)

lemma explain_stub:
  "grpc_client_stub (model (snd (explain E w r))) = grpc_client_stub (model w)"
  by (cases "explainer_host (model w)") (simp_all add: explain_None explain_Some http_post_stub)

lemma predict_no_grpc:
  "protocol (model w) \<noteq> GRPC_V2 \<Longrightarrow>
   filter is_grpc (calls (snd (predict E w r))) = filter is_grpc (calls w) \<and>
   grpc_client_stub (model (snd (predict E w r))) = grpc_client_stub (model w)"
  by (cases "falsy (predictor_host (model w))")
     (simp_all add: predict_falsy predict_http http_post_no_grpc http_post_stub)

lemma falsy_iff: "falsy h \<longleftrightarrow> h = None \<or> h = Some []"
  by (simp add: falsy_def split: option.splits)

lemma http_post_fields:
  "name (model (snd (http_post E url w r))) = name (model w)"
  "ready (model (snd (http_post E url w r))) = ready (model w)"
  "protocol (model (snd (http_post E url w r))) = protocol (model w)"
  "predictor_host (model (snd (http_post E url w r))) = predictor_host (model w)"
  "explainer_host (model (snd (http_post E url w r))) = explainer_host (model w)"
  "timeout (model (snd (http_post E url w r))) = timeout (model w)"
  by (simp_all add: http_post_model)

lemma explain_fields:
  "name (model (snd (explain E w r))) = name (model w)"
  "ready (model (snd (explain E w r))) = ready (model w)"
  "protocol (model (snd (explain E w r))) = protocol (model w)"
  "predictor_host (model (snd (explain E w r))) = predictor_host (model w)"
  "explainer_host (model (snd (explain E w r))) = explainer_host (model w)"
  "timeout (model (snd (explain E w r))) = timeout (model w)"
  by (cases "explainer_host (model w)"; simp add: explain_None explain_Some http_post_fields)+

lemma grpc_client_model:
  "model (snd (grpc_client w)) =
     (case grpc_client_stub (model w) of
        Some stub \<Rightarrow> model w
      | None \<Rightarrow>
          (case predictor_host (model w) of
             None \<Rightarrow> model w
           | Some h \<Rightarrow>
               (model w)\<lparr>predictor_host := Some (if CHR '':'' \<notin> set h then h @ '':80'' else h),
                         grpc_client_stub := Some (GRPCInferenceServiceStub
                            (if CHR '':'' \<notin> set h then h @ '':80'' else h))\<rparr>))"
  by (simp add: grpc_client_def Let_def split: option.splits)

lemma grpc_predict_model: "model (snd (grpc_predict E w r)) = model (snd (grpc_client w))"
  by (simp add: grpc_predict_def Let_def split: prod.splits sum.splits grpc_stub.splits)

lemma grpc_predict_fields:
  "name (model (snd (grpc_predict E w r))) = name (model w)"
  "ready (model (snd (grpc_predict E w r))) = ready (model w)"
  "protocol (model (snd (grpc_predict E w r))) = protocol (model w)"
  "explainer_host (model (snd (grpc_predict E w r))) = explainer_host (model w)"
  "timeout (model (snd (grpc_predict E w r))) = timeout (model w)"
  by (simp_all add: grpc_predict_model grpc_client_model split: option.splits)

lemma grpc_predict_host:
  "predictor_host (model (snd (grpc_predict E w r))) = predictor_host (model w) \<or>
   (grpc_client_stub (model w) = None \<and>
    (\<exists>h. predictor_host (model w) = Some h \<and> CHR '':'' \<notin> set h \<and>
         predictor_host (model (snd (grpc_predict E w r))) = Some (h @ '':80'')))"
  by (cases "grpc_client_stub (model w)"; cases "predictor_host (model w)")
     (simp_all add: grpc_predict_model grpc_client_model)

lemma predict_cases:
  "predict E w r = (Inl NotImplementedError, w) \<or>
   (protocol (model w) \<noteq> GRPC_V2 \<and> predict E w r = http_post E (predict_url (model w)) w r) \<or>
   (protocol (model w) = GRPC_V2 \<and> predict E w r = grpc_predict E w r)"
  by (simp add: predict_def http_predict_def)

lemma predict_fields:
  "name (model (snd (predict E w r))) = name (model w)"
  "ready (model (snd (predict E w r))) = ready (model w)"
  "protocol (model (snd (predict E w r))) = protocol (model w)"
  "explainer_host (model (snd (predict E w r))) = explainer_host (model w)"
  "timeout (model (snd (predict E w r))) = timeout (model w)"
  using predict_cases [of E w r] by (auto simp: http_post_fields grpc_predict_fields)

lemma predict_host:
  "predictor_host (model (snd (predict E w r))) = predictor_host (model w) \<or>
   (protocol (model w) = GRPC_V2 \<and> grpc_client_stub (model w) = None \<and>
    (\<exists>h. predictor_host (model w) = Some h \<and> CHR '':'' \<notin> set h \<and>
         predictor_host (model (snd (predict E w r))) = Some (h @ '':80'')))"
  using predict_cases [of E w r] grpc_predict_host [of E w r] by (auto simp: http_post_fields)

lemma call_KFModel_world:
  "snd (call (KFModel E) w body mt) = w \<or>
   (\<exists>r. snd (call (KFModel E) w body mt) =
          (case mt of EXPLAINER \<Rightarrow> snd (explain E w r) | PREDICTOR \<Rightarrow> snd (predict E w r)))"
proof -
  have post: "snd (case x of (Inl e, w2) \<Rightarrow> (Inl e, w2) | (Inr v, w2) \<Rightarrow> postprocess E w2 v) = snd x"
    for x :: "(error + pyval) \<times> world"
    by (cases x) (simp add: postprocess_world split: sum.splits)
  show ?thesis
    unfolding call_KFModel
    by (cases mt) (auto simp: post split: sum.splits)
qed

lemma stage_of_override:
  "stage_of (override S nm st) nm' = (if nm' = nm then st else stage_of S nm')"
  by (cases nm; cases nm') (simp_all add: stage_of_def override_def)

lemma structured_data: "is_structured_dict d \<Longrightarrow> \<exists>v. map_of d ''data'' = Some v"
  by (simp add: is_structured_dict_def contains_def split: option.splits)

section \<open>The claims\<close>

subsection \<open>C1: the request validator\<close>

text \<open>
  C1.  A mapping in which \<^verbatim>\<open>instances\<close> or \<^verbatim>\<open>inputs\<close> is present with a value that is
  not a list makes \<open>validate\<close> fail with the client error (status 400, the reason saying
  that a list was expected); every other payload, a mapping with no such key as well as
  any value that is not a mapping, is returned unchanged.
\<close>

theorem validate_list_or_client_error:
  "(p = VDict d \<and> (k = ''instances'' \<or> k = ''inputs'') \<and> map_of d k = Some v \<and> \<not> isinstance_list v
      \<longrightarrow> validate p = Inl (HTTPError 400 expected_list_reason))
   \<and> ((\<forall>d k v. p = VDict d \<and> (k = ''instances'' \<or> k = ''inputs'') \<and> map_of d k = Some v
                 \<longrightarrow> isinstance_list v)
      \<longrightarrow> validate p = Inr p)"
  by (auto simp: validate_def present_not_list_def BAD_REQUEST_def split: pyval.splits option.splits)

text \<open>The theorem at an offending mapping, at a well-formed one and at a byte buffer.\<close>

theorem validate_list_or_client_error_witness:
  "validate (VDict [(''inputs'', VStr ''x'')]) = Inl (HTTPError 400 expected_list_reason)
   \<and> validate (VDict [(''instances'', VList [VInt 1])]) = Inr (VDict [(''instances'', VList [VInt 1])])
   \<and> validate (VBytes ''x'') = Inr (VBytes ''x'')"
  using validate_list_or_client_error [of "VDict [(''inputs'', VStr ''x'')]" "[(''inputs'', VStr ''x'')]" "''inputs''" "VStr ''x''"]
        validate_list_or_client_error [of "VDict [(''instances'', VList [VInt 1])]"]
        validate_list_or_client_error [of "VBytes ''x''"]
  by (simp add: isinstance_list_def)

subsection \<open>C2: what a call changes in the unit\<close>

text \<open>
  Under \<^verbatim>\<open>grpc-v2\<close> the first predict call creates the stub, and in doing so rewrites
  the predictor host of the unit when it carries no port.
\<close>

theorem call_changes_predictor_host:
  "predictor_host (model (snd (call (KFModel stub_env)
       (world0 ((init ''m'')\<lparr>protocol := GRPC_V2, predictor_host := Some ''predictor''\<rparr>))
       (VDict []) PREDICTOR)))
     \<noteq> predictor_host (model
       (world0 ((init ''m'')\<lparr>protocol := GRPC_V2, predictor_host := Some ''predictor''\<rparr>)))"
  by code_simp

text \<open>
  C2, amended.  A call leaves name, ready, protocol, explainer host and timeout of the
  unit as they were.  The predictor host is left as it was too, except in one case: a
  predict call under \<^verbatim>\<open>grpc-v2\<close> on a unit with no stub yet and a host without a colon
  appends \<^verbatim>\<open>:80\<close> to it.
\<close>

theorem call_frame:
  "name (model (snd (call (KFModel E) w body mt))) = name (model w) \<and>
   ready (model (snd (call (KFModel E) w body mt))) = ready (model w) \<and>
   protocol (model (snd (call (KFModel E) w body mt))) = protocol (model w) \<and>
   explainer_host (model (snd (call (KFModel E) w body mt))) = explainer_host (model w) \<and>
   timeout (model (snd (call (KFModel E) w body mt))) = timeout (model w) \<and>
   (predictor_host (model (snd (call (KFModel E) w body mt))) = predictor_host (model w) \<or>
    (mt = PREDICTOR \<and> protocol (model w) = GRPC_V2 \<and> grpc_client_stub (model w) = None \<and>
     (\<exists>h. predictor_host (model w) = Some h \<and> CHR '':'' \<notin> set h \<and>
          predictor_host (model (snd (call (KFModel E) w body mt))) = Some (h @ '':80''))))"
proof -
  consider "snd (call (KFModel E) w body mt) = w"
    | r where "mt = EXPLAINER" "snd (call (KFModel E) w body mt) = snd (explain E w r)"
    | r where "mt = PREDICTOR" "snd (call (KFModel E) w body mt) = snd (predict E w r)"
    using call_KFModel_world [of E w body mt] by (cases mt) auto
  then show ?thesis
  proof cases
    case 1
    then show ?thesis by simp
  next
    case 2
    then show ?thesis by (simp add: explain_fields)
  next
    case 3
    then show ?thesis using predict_host [of E w r] by (simp add: predict_fields)
  qed
qed

theorem call_frame_witness:
  "name (model (snd (call (KFModel stub_env) (world0 served) (VDict []) EXPLAINER))) = ''m'' \<and>
   timeout (model (snd (call (KFModel stub_env) (world0 served) (VDict []) EXPLAINER))) = 600 \<and>
   predictor_host (model (snd (call (KFModel stub_env) (world0 served) (VDict []) EXPLAINER)))
     = Some ''predictor''"
proof -
  have 1: "name (model (world0 served)) = ''m'' \<and> timeout (model (world0 served)) = 600 \<and>
           predictor_host (model (world0 served)) = Some ''predictor''"
    by code_simp
  show ?thesis
    using call_frame [of stub_env "world0 served" "VDict []" EXPLAINER] 1 by simp
qed

subsection \<open>C3: plain and coroutine stage overrides\<close>

text \<open>
  The orchestrator calls \<^verbatim>\<open>postprocess\<close> without awaiting it: a coroutine override
  hands the caller a coroutine object, where the plain override hands over the value.
\<close>

theorem postprocess_not_awaited:
  "fst (call (override (KFModel stub_env) Postprocess (SyncFn (postprocess stub_env)))
         (world0 ((init ''m'')\<lparr>protocol := GRPC_V2, predictor_host := Some ''predictor''\<rparr>))
         (VDict []) PREDICTOR) = Inr (VDict [])
   \<and> fst (call (override (KFModel stub_env) Postprocess (CoroFn (postprocess stub_env)))
         (world0 ((init ''m'')\<lparr>protocol := GRPC_V2, predictor_host := Some ''predictor''\<rparr>))
         (VDict []) PREDICTOR) = Inr (VCoroutine Postprocess (VModelInferResponse ''ok''))
   \<and> call (override (KFModel stub_env) Postprocess (SyncFn (postprocess stub_env)))
         (world0 ((init ''m'')\<lparr>protocol := GRPC_V2, predictor_host := Some ''predictor''\<rparr>))
         (VDict []) PREDICTOR
     \<noteq> call (override (KFModel stub_env) Postprocess (CoroFn (postprocess stub_env)))
         (world0 ((init ''m'')\<lparr>protocol := GRPC_V2, predictor_host := Some ''predictor''\<rparr>))
         (VDict []) PREDICTOR"
  by code_simp

text \<open>
  C3, amended.  For an override of preprocess, predict or explain, a call gives the same
  result and the same final state whether the override is a plain function or a
  coroutine function with the same body.
\<close>

theorem stage_form_unobservable:
  "nm \<noteq> Postprocess \<Longrightarrow>
   call (override S nm (SyncFn f)) w body mt = call (override S nm (CoroFn f)) w body mt"
proof -
  assume nm: "nm \<noteq> Postprocess"
  have body: "body_of (stage_of (override S nm (SyncFn f)) nm') =
              body_of (stage_of (override S nm (CoroFn f)) nm')" for nm'
    by (simp add: stage_of_override body_of_def)
  have post: "call_stage (override S nm (SyncFn f)) Postprocess =
              call_stage (override S nm (CoroFn f)) Postprocess"
    using nm by (intro ext) (simp add: call_stage_def stage_of_override)
  show ?thesis
    unfolding call_def await_or_call_body body post ..
qed

theorem stage_form_unobservable_witness:
  "Predict \<noteq> Postprocess \<and>
   call (override (KFModel stub_env) Predict (SyncFn (predict stub_env)))
        (world0 served) (VDict []) PREDICTOR =
   call (override (KFModel stub_env) Predict (CoroFn (predict stub_env)))
        (world0 served) (VDict []) PREDICTOR"
proof -
  have 1: "Predict \<noteq> Postprocess" by simp
  from 1 stage_form_unobservable [OF 1] show ?thesis by (intro conjI)
qed

subsection \<open>C4: predict without a predictor host\<close>

text \<open>
  Decoding and validation come before the dispatch: a body that the validator rejects
  ends the call with the client error, also on a unit without a predictor host.
\<close>

theorem predict_without_host_client_error:
  "falsy (predictor_host (model (world0 (init ''m'')))) \<and>
   call (KFModel stub_env) (world0 (init ''m'')) (VDict [(''instances'', VInt 1)]) PREDICTOR
     = (Inl (HTTPError 400 expected_list_reason), world0 (init ''m'')) \<and>
   fst (call (KFModel stub_env) (world0 (init ''m'')) (VDict [(''instances'', VInt 1)]) PREDICTOR)
     \<noteq> Inl NotImplementedError"
  by code_simp

text \<open>
  C4, amended.  On a unit whose predictor host is not set (\<^verbatim>\<open>None\<close> or empty), a
  predict call always fails and leaves the unit and the record of outbound calls as they
  were, so no network call is made; the failure is the unimplemented-operation error for
  every body that passes decoding and validation, and the predict stage itself raises
  it on every request.
\<close>

theorem predict_without_host:
  "falsy (predictor_host (model w)) \<Longrightarrow>
   (\<exists>e. call (KFModel E) w body PREDICTOR = (Inl e, w)) \<and>
   (\<forall>r. fst (preprocess E w body) = Inr r \<and> validate r = Inr r \<longrightarrow>
        call (KFModel E) w body PREDICTOR = (Inl NotImplementedError, w)) \<and>
   (\<forall>r. predict E w r = (Inl NotImplementedError, w))"
  by (auto simp: call_KFModel predict_falsy split: sum.splits dest: validate_Inr)

theorem predict_without_host_witness:
  "falsy (predictor_host (model (world0 (init ''m'')))) \<and>
   call (KFModel stub_env) (world0 (init ''m'')) (VDict []) PREDICTOR
     = (Inl NotImplementedError, world0 (init ''m'')) \<and>
   calls (snd (call (KFModel stub_env) (world0 (init ''m'')) (VDict []) PREDICTOR)) = []"
proof -
  have f: "falsy (predictor_host (model (world0 (init ''m''))))" by code_simp
  have p: "fst (preprocess stub_env (world0 (init ''m'')) (VDict [])) = Inr (VDict [])
           \<and> validate (VDict []) = Inr (VDict [])" by code_simp
  have c: "calls (world0 (init ''m'')) = []" by code_simp
  from predict_without_host [OF f, of stub_env "VDict []"] p f c show ?thesis by simp
qed

subsection \<open>C5: undecodable bytes in a structured event\<close>

text \<open>
  C5.  For a structured event whose data is a byte buffer that does not decode as UTF-8
  JSON, \<open>preprocess\<close> raises the client error exactly when the attribute
  \<^verbatim>\<open>content-type\<close> is \<^verbatim>\<open>application/json\<close> or \<^verbatim>\<open>application/cloudevents+json\<close>; with
  any other content type, or none, it returns the bytes unchanged.
\<close>

theorem undecodable_event_bytes:
  "json_loads E b = Inl e \<Longrightarrow>
   ((map_of attributes ''content-type'' = Some (VStr ''application/json'') \<or>
     map_of attributes ''content-type'' = Some (VStr ''application/cloudevents+json'')) \<longrightarrow>
      preprocess E w (VCloudEvent attributes (VBytes b)) =
        (Inl (HTTPError 400 (unrecognized_reason e)), w)) \<and>
   (\<not> (map_of attributes ''content-type'' = Some (VStr ''application/json'') \<or>
        map_of attributes ''content-type'' = Some (VStr ''application/cloudevents+json'')) \<longrightarrow>
      preprocess E w (VCloudEvent attributes (VBytes b)) = (Inr (VBytes b), w))"
  by (auto simp: preprocess_def json_content_type_def BAD_REQUEST_def split: option.splits)

theorem undecodable_event_bytes_witness:
  "json_loads stub_env ''not json'' = Inl ''Expecting value'' \<and>
   preprocess stub_env (world0 (init ''m''))
      (VCloudEvent [(''content-type'', VStr ''application/json'')] (VBytes ''not json'')) =
      (Inl (HTTPError 400 (unrecognized_reason ''Expecting value'')), world0 (init ''m'')) \<and>
   preprocess stub_env (world0 (init ''m''))
      (VCloudEvent [(''content-type'', VStr ''application/cloudevents+json'')] (VBytes ''not json'')) =
      (Inl (HTTPError 400 (unrecognized_reason ''Expecting value'')), world0 (init ''m'')) \<and>
   preprocess stub_env (world0 (init ''m''))
      (VCloudEvent [(''content-type'', VStr ''text/plain'')] (VBytes ''not json'')) =
      (Inr (VBytes ''not json''), world0 (init ''m'')) \<and>
   preprocess stub_env (world0 (init ''m'')) (VCloudEvent [] (VBytes ''not json'')) =
      (Inr (VBytes ''not json''), world0 (init ''m''))"
proof -
  have l: "json_loads stub_env ''not json'' = Inl ''Expecting value''" by code_simp
  show ?thesis
    using l
      undecodable_event_bytes [OF l, of "[(''content-type'', VStr ''application/json'')]" "world0 (init ''m'')"]
      undecodable_event_bytes [OF l, of "[(''content-type'', VStr ''application/cloudevents+json'')]" "world0 (init ''m'')"]
      undecodable_event_bytes [OF l, of "[(''content-type'', VStr ''text/plain'')]" "world0 (init ''m'')"]
      undecodable_event_bytes [OF l, of "[]" "world0 (init ''m'')"]
    by simp
qed

subsection \<open>C6: decoding twice\<close>

text \<open>
  A six-key mapping whose data is again a six-key mapping is unwrapped once by each
  decoding, so decoding twice differs from decoding once.
\<close>

theorem nested_envelope_not_idempotent:
  "preprocess stub_env (world0 (init ''m'')) (structured (structured (VInt 1)))
     = (Inr (structured (VInt 1)), world0 (init ''m'')) \<and>
   preprocess_twice stub_env (world0 (init ''m'')) (structured (structured (VInt 1)))
     = (Inr (VInt 1), world0 (init ''m'')) \<and>
   preprocess_twice stub_env (world0 (init ''m'')) (structured (structured (VInt 1)))
     \<noteq> preprocess stub_env (world0 (init ''m'')) (structured (structured (VInt 1)))"
  by code_simp

text \<open>
  C6, amended.  A mapping that lacks one of the six keys is returned unchanged, so that
  decoding it twice is decoding it once.  A mapping with all six keys decodes to its
  \<^verbatim>\<open>data\<close> field, and decoding it twice is decoding it once exactly when that field
  decodes to itself.
\<close>

theorem decode_mapping_idempotent:
  "(\<not> is_structured_dict d \<longrightarrow>
      preprocess E w (VDict d) = (Inr (VDict d), w) \<and>
      preprocess_twice E w (VDict d) = preprocess E w (VDict d)) \<and>
   (is_structured_dict d \<longrightarrow>
      (\<exists>v. map_of d ''data'' = Some v \<and>
           preprocess E w (VDict d) = (Inr v, w) \<and>
           (preprocess_twice E w (VDict d) = preprocess E w (VDict d)
              \<longleftrightarrow> preprocess E w v = (Inr v, w))))"
proof (intro conjI impI)
  assume n: "\<not> is_structured_dict d"
  then show p: "preprocess E w (VDict d) = (Inr (VDict d), w)"
    by (simp add: preprocess_def)
  then show "preprocess_twice E w (VDict d) = preprocess E w (VDict d)"
    by (simp add: preprocess_twice_def)
next
  assume s: "is_structured_dict d"
  then obtain v where v: "map_of d ''data'' = Some v"
    using structured_data by blast
  with s have p: "preprocess E w (VDict d) = (Inr v, w)"
    by (simp add: preprocess_def)
  then have "preprocess_twice E w (VDict d) = preprocess E w v"
    by (simp add: preprocess_twice_def)
  with v p show "\<exists>v. map_of d ''data'' = Some v \<and>
           preprocess E w (VDict d) = (Inr v, w) \<and>
           (preprocess_twice E w (VDict d) = preprocess E w (VDict d)
              \<longleftrightarrow> preprocess E w v = (Inr v, w))"
    by simp
qed

theorem decode_mapping_idempotent_witness:
  "preprocess_twice stub_env (world0 served) (VDict [(''instances'', VList [])])
     = preprocess stub_env (world0 served) (VDict [(''instances'', VList [])]) \<and>
   preprocess_twice stub_env (world0 served) (structured (VList []))
     = preprocess stub_env (world0 served) (structured (VList []))"
proof -
  let ?d = "[(''time'', VStr ''2021-01-01T00:00:00Z''), (''type'', VStr ''t''),
             (''source'', VStr ''s''), (''id'', VStr ''1''),
             (''specversion'', VStr ''1.0''), (''data'', VList [])]"
  have 1: "\<not> is_structured_dict [(''instances'', VList [])]" by code_simp
  have 2: "is_structured_dict ?d" by code_simp
  have 3: "map_of ?d ''data'' = Some (VList [])" by code_simp
  have 4: "preprocess stub_env (world0 served) (VList []) = (Inr (VList []), world0 served)"
    by code_simp
  have a: "preprocess_twice stub_env (world0 served) (VDict [(''instances'', VList [])])
     = preprocess stub_env (world0 served) (VDict [(''instances'', VList [])])"
    using decode_mapping_idempotent [of "[(''instances'', VList [])]" stub_env "world0 served"] 1
    by blast
  have b: "preprocess_twice stub_env (world0 served) (VDict ?d)
     = preprocess stub_env (world0 served) (VDict ?d)"
    using decode_mapping_idempotent [of ?d stub_env "world0 served"] 2 3 4 by auto
  from a b show ?thesis by (simp add: structured_def)
qed

subsection \<open>C7: the REST endpoints\<close>

text \<open>
  C7.  For a unit named \<open>n\<close> with predictor host \<open>h\<close>, whatever its explainer host: the
  predict URL is \<^verbatim>\<open>http://h/v2/models/n/infer\<close> under \<^verbatim>\<open>v2\<close> and
  \<^verbatim>\<open>http://h/v1/models/n:predict\<close> under \<^verbatim>\<open>v1\<close>, and it is the URL that
  \<^verbatim>\<open>_http_predict\<close> posts to.  For a unit with explainer host \<open>x\<close>, whatever its
  predictor host: the explain URL is \<^verbatim>\<open>http://x/v2/models/n/explain\<close> under \<^verbatim>\<open>v2\<close> and
  \<^verbatim>\<open>http://x/v1/models/n:explain\<close> under \<^verbatim>\<open>v1\<close>, and it is the URL that \<^verbatim>\<open>explain\<close>
  posts to.
\<close>

theorem rest_urls:
  "(predictor_host (model w) = Some h \<longrightarrow>
      (protocol (model w) = REST_V2 \<longrightarrow>
         predict_url (model w) = ''http://'' @ h @ ''/v2/models/'' @ name (model w) @ ''/infer'') \<and>
      (protocol (model w) = REST_V1 \<longrightarrow>
         predict_url (model w) = ''http://'' @ h @ ''/v1/models/'' @ name (model w) @ '':predict'') \<and>
      (\<forall>jb. json_dumps E r = Some jb \<longrightarrow>
         calls (snd (http_predict E w r)) =
           calls w @ [HttpFetch (predict_url (model w)) ''POST'' (timeout (model w)) jb])) \<and>
   (explainer_host (model w) = Some x \<longrightarrow>
      (protocol (model w) = REST_V2 \<longrightarrow>
         explain_url (model w) = ''http://'' @ x @ ''/v2/models/'' @ name (model w) @ ''/explain'') \<and>
      (protocol (model w) = REST_V1 \<longrightarrow>
         explain_url (model w) = ''http://'' @ x @ ''/v1/models/'' @ name (model w) @ '':explain'') \<and>
      (\<forall>jb. json_dumps E r = Some jb \<longrightarrow>
         calls (snd (explain E w r)) =
           calls w @ [HttpFetch (explain_url (model w)) ''POST'' (timeout (model w)) jb]))"
proof (intro conjI impI allI)
  assume h: "predictor_host (model w) = Some h"
  show "predict_url (model w) = ''http://'' @ h @ ''/v2/models/'' @ name (model w) @ ''/infer''"
    if "protocol (model w) = REST_V2"
    using that h by (simp add: predict_url_def str_host_def format2_predict_v2)
  show "predict_url (model w) = ''http://'' @ h @ ''/v1/models/'' @ name (model w) @ '':predict''"
    if "protocol (model w) = REST_V1"
    using that h by (simp add: predict_url_def str_host_def REST_V1_def REST_V2_def format2_predict_v1)
  show "calls (snd (http_predict E w r)) =
           calls w @ [HttpFetch (predict_url (model w)) ''POST'' (timeout (model w)) jb]"
    if "json_dumps E r = Some jb" for jb
    using that by (simp add: http_predict_def http_post_calls)
next
  assume x: "explainer_host (model w) = Some x"
  show "explain_url (model w) = ''http://'' @ x @ ''/v2/models/'' @ name (model w) @ ''/explain''"
    if "protocol (model w) = REST_V2"
    using that x by (simp add: explain_url_def str_host_def format2_explain_v2)
  show "explain_url (model w) = ''http://'' @ x @ ''/v1/models/'' @ name (model w) @ '':explain''"
    if "protocol (model w) = REST_V1"
    using that x by (simp add: explain_url_def str_host_def REST_V1_def REST_V2_def format2_explain_v1)
  show "calls (snd (explain E w r)) =
           calls w @ [HttpFetch (explain_url (model w)) ''POST'' (timeout (model w)) jb]"
    if "json_dumps E r = Some jb" for jb
    using that x by (simp add: explain_Some http_post_calls)
qed

theorem rest_urls_witness:
  "explainer_host (model (world0 ((init ''m'')\<lparr>predictor_host := Some ''predictor''\<rparr>))) = None \<and>
   predict_url (model (world0 ((init ''m'')\<lparr>predictor_host := Some ''predictor''\<rparr>)))
     = ''http://predictor/v1/models/m:predict'' \<and>
   predict_url (model (world0 ((init ''m'')\<lparr>predictor_host := Some ''predictor'', protocol := REST_V2\<rparr>)))
     = ''http://predictor/v2/models/m/infer'' \<and>
   calls (snd (http_predict stub_env (world0 ((init ''m'')\<lparr>predictor_host := Some ''predictor''\<rparr>)) (VDict [])))
     = [HttpFetch ''http://predictor/v1/models/m:predict'' ''POST'' 600 ''{}''] \<and>
   explain_url (model (world0 ((init ''m'')\<lparr>explainer_host := Some ''explainer''\<rparr>)))
     = ''http://explainer/v1/models/m:explain'' \<and>
   explain_url (model (world0 ((init ''m'')\<lparr>explainer_host := Some ''explainer'', protocol := REST_V2\<rparr>)))
     = ''http://explainer/v2/models/m/explain'' \<and>
   calls (snd (explain stub_env (world0 ((init ''m'')\<lparr>explainer_host := Some ''explainer'', protocol := REST_V2\<rparr>)) (VDict [])))
     = [HttpFetch ''http://explainer/v2/models/m/explain'' ''POST'' 600 ''{}'']"
proof -
  let ?p1 = "world0 ((init ''m'')\<lparr>predictor_host := Some ''predictor''\<rparr>)"
  let ?p2 = "world0 ((init ''m'')\<lparr>predictor_host := Some ''predictor'', protocol := REST_V2\<rparr>)"
  let ?x1 = "world0 ((init ''m'')\<lparr>explainer_host := Some ''explainer''\<rparr>)"
  let ?x2 = "world0 ((init ''m'')\<lparr>explainer_host := Some ''explainer'', protocol := REST_V2\<rparr>)"
  have n: "explainer_host (model ?p1) = None" by code_simp
  have p1: "predictor_host (model ?p1) = Some ''predictor''" "protocol (model ?p1) = REST_V1"
    by code_simp+
  have p2: "predictor_host (model ?p2) = Some ''predictor''" "protocol (model ?p2) = REST_V2"
    by code_simp+
  have x1: "explainer_host (model ?x1) = Some ''explainer''" "protocol (model ?x1) = REST_V1"
    by code_simp+
  have x2: "explainer_host (model ?x2) = Some ''explainer''" "protocol (model ?x2) = REST_V2"
    by code_simp+
  have d: "json_dumps stub_env (VDict []) = Some ''{}''" by code_simp
  have e1: "''http://'' @ ''predictor'' @ ''/v1/models/'' @ name (model ?p1) @ '':predict''
            = ''http://predictor/v1/models/m:predict''" by code_simp
  have e2: "''http://'' @ ''predictor'' @ ''/v2/models/'' @ name (model ?p2) @ ''/infer''
            = ''http://predictor/v2/models/m/infer''" by code_simp
  have e3: "''http://'' @ ''explainer'' @ ''/v1/models/'' @ name (model ?x1) @ '':explain''
            = ''http://explainer/v1/models/m:explain''" by code_simp
  have e4: "''http://'' @ ''explainer'' @ ''/v2/models/'' @ name (model ?x2) @ ''/explain''
            = ''http://explainer/v2/models/m/explain''" by code_simp
  have t1: "calls ?p1 = [] \<and> timeout (model ?p1) = 600" by code_simp
  have t2: "calls ?x2 = [] \<and> timeout (model ?x2) = 600" by code_simp
  note P1 = rest_urls [of ?p1 "''predictor''" stub_env "VDict []" "''explainer''"]
  note P2 = rest_urls [of ?p2 "''predictor''" stub_env "VDict []" "''explainer''"]
  note X1 = rest_urls [of ?x1 "''predictor''" stub_env "VDict []" "''explainer''"]
  note X2 = rest_urls [of ?x2 "''predictor''" stub_env "VDict []" "''explainer''"]
  have a: "predict_url (model ?p1) = ''http://predictor/v1/models/m:predict''"
    using P1 p1 e1 by simp
  have b: "predict_url (model ?p2) = ''http://predictor/v2/models/m/infer''"
    using P2 p2 e2 by simp
  have "calls (snd (http_predict stub_env ?p1 (VDict []))) =
          calls ?p1 @ [HttpFetch (predict_url (model ?p1)) ''POST'' (timeout (model ?p1)) ''{}'']"
    using P1 p1 d by blast
  then have c: "calls (snd (http_predict stub_env ?p1 (VDict []))) =
          [HttpFetch ''http://predictor/v1/models/m:predict'' ''POST'' 600 ''{}'']"
    using a t1 by simp
  have e: "explain_url (model ?x1) = ''http://explainer/v1/models/m:explain''"
    using X1 x1 e3 by simp
  have f: "explain_url (model ?x2) = ''http://explainer/v2/models/m/explain''"
    using X2 x2 e4 by simp
  have "calls (snd (explain stub_env ?x2 (VDict []))) =
          calls ?x2 @ [HttpFetch (explain_url (model ?x2)) ''POST'' (timeout (model ?x2)) ''{}'']"
    using X2 x2 d by blast
  then have g: "calls (snd (explain stub_env ?x2 (VDict []))) =
          [HttpFetch ''http://explainer/v2/models/m/explain'' ''POST'' 600 ''{}'']"
    using f t2 by simp
  from n a b c e f g show ?thesis by (intro conjI)
qed

subsection \<open>C8: a response that is not 200\<close>

text \<open>
  C8.  On the HTTP path of either operation, a response of the transport with a status
  \<open>s\<close> other than 200 and body \<open>b\<close> makes the call fail with the error of status \<open>s\<close> and
  reason \<open>b\<close>.  (The body has passed decoding and validation and serialises, so that
  the transport is reached.)
\<close>

theorem non200_is_backend_error:
  "fst (preprocess E w body) = Inr r \<Longrightarrow> validate r = Inr r \<Longrightarrow> json_dumps E r = Some jb \<Longrightarrow>
   s \<noteq> 200 \<Longrightarrow>
   (\<not> falsy (predictor_host (model w)) \<and> protocol (model w) \<noteq> GRPC_V2 \<and>
    fetch E (predict_url (model w)) ''POST'' (timeout (model w)) jb = Inr (s, b)
      \<longrightarrow> fst (call (KFModel E) w body PREDICTOR) = Inl (HTTPError s b)) \<and>
   (explainer_host (model w) \<noteq> None \<and>
    fetch E (explain_url (model w)) ''POST'' (timeout (model w)) jb = Inr (s, b)
      \<longrightarrow> fst (call (KFModel E) w body EXPLAINER) = Inl (HTTPError s b))"
proof (intro conjI impI)
  assume a: "fst (preprocess E w body) = Inr r" "validate r = Inr r" "json_dumps E r = Some jb"
    "s \<noteq> 200"
  {
    assume h: "\<not> falsy (predictor_host (model w)) \<and> protocol (model w) \<noteq> GRPC_V2 \<and>
      fetch E (predict_url (model w)) ''POST'' (timeout (model w)) jb = Inr (s, b)"
    then have "fst (predict E w r) = Inl (HTTPError s b)"
      using a by (simp add: predict_http http_post_non200)
    then show "fst (call (KFModel E) w body PREDICTOR) = Inl (HTTPError s b)"
      using a by (cases "predict E w r") (simp add: call_KFModel)
  }
  {
    assume h: "explainer_host (model w) \<noteq> None \<and>
      fetch E (explain_url (model w)) ''POST'' (timeout (model w)) jb = Inr (s, b)"
    then have "fst (explain E w r) = Inl (HTTPError s b)"
      using a by (auto simp: explain_Some http_post_non200)
    then show "fst (call (KFModel E) w body EXPLAINER) = Inl (HTTPError s b)"
      using a by (cases "explain E w r") (simp add: call_KFModel)
  }
qed

text \<open>The transport stub answers 500 with body \<^verbatim>\<open>boom\<close>.\<close>

theorem non200_is_backend_error_witness:
  "fst (call (KFModel stub_env) (world0 served) (VDict []) PREDICTOR) = Inl (HTTPError 500 ''boom'') \<and>
   fst (call (KFModel stub_env) (world0 served) (VDict []) EXPLAINER) = Inl (HTTPError 500 ''boom'')"
proof -
  have 1: "fst (preprocess stub_env (world0 served) (VDict [])) = Inr (VDict [])" by code_simp
  have 2: "validate (VDict []) = Inr (VDict [])" by code_simp
  have 3: "json_dumps stub_env (VDict []) = Some ''{}''" by code_simp
  have 4: "(500::int) \<noteq> 200" by simp
  have 5: "\<not> falsy (predictor_host (model (world0 served))) \<and>
           protocol (model (world0 served)) \<noteq> GRPC_V2 \<and>
           fetch stub_env (predict_url (model (world0 served))) ''POST''
             (timeout (model (world0 served))) ''{}'' = Inr (500, ''boom'')" by code_simp
  have 6: "explainer_host (model (world0 served)) \<noteq> None \<and>
           fetch stub_env (explain_url (model (world0 served))) ''POST''
             (timeout (model (world0 served))) ''{}'' = Inr (500, ''boom'')" by code_simp
  from non200_is_backend_error [OF 1 2 3 4, of "''boom''"] 5 6 show ?thesis by blast
qed

subsection \<open>C9: gRPC is for predict only\<close>

text \<open>
  C9.  The explain stage, and a whole explain call, make no gRPC call and do not touch
  the stub, whatever the protocol.  With an explainer host the explain stage dispatches
  over HTTP: it issues one fetch, a POST to the explain URL, which is the v1 explain URL
  whenever the protocol is not \<^verbatim>\<open>v2\<close> (so also under \<^verbatim>\<open>grpc-v2\<close>).  The predict stage
  makes no gRPC call and does not touch the stub under any protocol other than
  \<^verbatim>\<open>grpc-v2\<close>; under \<^verbatim>\<open>grpc-v2\<close>, with a predictor host, it makes exactly one call,
  through the stub of the unit.
\<close>

theorem grpc_only_for_predict:
  "filter is_grpc (calls (snd (explain E w r))) = filter is_grpc (calls w)
   \<and> grpc_client_stub (model (snd (explain E w r))) = grpc_client_stub (model w)
   \<and> filter is_grpc (calls (snd (call (KFModel E) w body EXPLAINER))) = filter is_grpc (calls w)
   \<and> (explainer_host (model w) \<noteq> None \<longrightarrow>
        (\<forall>jb. json_dumps E r = Some jb \<longrightarrow>
           calls (snd (explain E w r)) =
             calls w @ [HttpFetch (explain_url (model w)) ''POST'' (timeout (model w)) jb]))
   \<and> (protocol (model w) \<noteq> REST_V2 \<longrightarrow>
        explain_url (model w) =
          ''http://'' @ str_host (explainer_host (model w)) @ ''/v1/models/'' @ name (model w) @ '':explain'')
   \<and> (protocol (model w) \<noteq> GRPC_V2 \<longrightarrow>
        filter is_grpc (calls (snd (predict E w r))) = filter is_grpc (calls w) \<and>
        grpc_client_stub (model (snd (predict E w r))) = grpc_client_stub (model w))
   \<and> (protocol (model w) = GRPC_V2 \<and> \<not> falsy (predictor_host (model w)) \<longrightarrow>
        (\<exists>target. calls (snd (predict E w r)) =
            calls w @ [GrpcModelInfer target r (timeout (model w))] \<and>
          grpc_client_stub (model (snd (predict E w r))) = Some (GRPCInferenceServiceStub target)))"
proof (intro conjI impI allI)
  show "filter is_grpc (calls (snd (explain E w r))) = filter is_grpc (calls w)"
    by (rule explain_no_grpc)
  show "grpc_client_stub (model (snd (explain E w r))) = grpc_client_stub (model w)"
    by (rule explain_stub)
  show "filter is_grpc (calls (snd (call (KFModel E) w body EXPLAINER))) = filter is_grpc (calls w)"
    using call_KFModel_world [of E w body EXPLAINER] by (auto simp: explain_no_grpc)
  show "calls (snd (explain E w r)) =
          calls w @ [HttpFetch (explain_url (model w)) ''POST'' (timeout (model w)) jb]"
    if "explainer_host (model w) \<noteq> None" "json_dumps E r = Some jb" for jb
    using that by (auto simp: explain_Some http_post_calls)
  show "explain_url (model w) =
          ''http://'' @ str_host (explainer_host (model w)) @ ''/v1/models/'' @ name (model w) @ '':explain''"
    if "protocol (model w) \<noteq> REST_V2"
    using that by (simp add: explain_url_def format2_explain_v1)
  show "filter is_grpc (calls (snd (predict E w r))) = filter is_grpc (calls w)"
    if "protocol (model w) \<noteq> GRPC_V2"
    using that by (simp add: predict_no_grpc)
  show "grpc_client_stub (model (snd (predict E w r))) = grpc_client_stub (model w)"
    if "protocol (model w) \<noteq> GRPC_V2"
    using that by (simp add: predict_no_grpc)
  show "\<exists>target. calls (snd (predict E w r)) =
            calls w @ [GrpcModelInfer target r (timeout (model w))] \<and>
          grpc_client_stub (model (snd (predict E w r))) = Some (GRPCInferenceServiceStub target)"
    if "protocol (model w) = GRPC_V2 \<and> \<not> falsy (predictor_host (model w))"
  proof -
    from that obtain h where "predictor_host (model w) = Some h"
      by (auto simp: falsy_iff)
    from grpc_predict_calls [OF this, of E r] that show ?thesis
      by (auto simp: predict_grpc)
  qed
qed

theorem grpc_only_for_predict_witness:
  "calls (snd (explain stub_env (world0 (served\<lparr>protocol := GRPC_V2\<rparr>)) (VDict [])))
     = [HttpFetch ''http://explainer/v1/models/m:explain'' ''POST'' 600 ''{}''] \<and>
   filter is_grpc (calls (snd (explain stub_env (world0 (served\<lparr>protocol := GRPC_V2\<rparr>)) (VDict []))))
     = filter is_grpc (calls (world0 (served\<lparr>protocol := GRPC_V2\<rparr>))) \<and>
   (\<exists>target. calls (snd (predict stub_env (world0 (served\<lparr>protocol := GRPC_V2\<rparr>)) (VDict []))) =
       calls (world0 (served\<lparr>protocol := GRPC_V2\<rparr>)) @ [GrpcModelInfer target (VDict []) 600]) \<and>
   filter is_grpc (calls (snd (predict stub_env (world0 served) (VDict []))))
     = filter is_grpc (calls (world0 served))"
proof -
  let ?g = "world0 (served\<lparr>protocol := GRPC_V2\<rparr>)"
  let ?h = "world0 served"
  have 1: "protocol (model ?g) = GRPC_V2 \<and> \<not> falsy (predictor_host (model ?g))" by code_simp
  have 2: "protocol (model ?g) \<noteq> REST_V2" by code_simp
  have 3: "protocol (model ?h) \<noteq> GRPC_V2" by code_simp
  have 4: "''http://'' @ str_host (explainer_host (model ?g)) @ ''/v1/models/'' @ name (model ?g)
             @ '':explain'' = ''http://explainer/v1/models/m:explain''" by code_simp
  have 5: "timeout (model ?g) = 600" by code_simp
  have 6: "explainer_host (model ?g) \<noteq> None" by code_simp
  have 7: "json_dumps stub_env (VDict []) = Some ''{}''" by code_simp
  have 8: "calls ?g = []" by code_simp
  note G = grpc_only_for_predict [of stub_env ?g "VDict []" "VDict []"]
  note H = grpc_only_for_predict [of stub_env ?h "VDict []" "VDict []"]
  have a: "filter is_grpc (calls (snd (explain stub_env ?g (VDict [])))) = filter is_grpc (calls ?g)"
    using G by blast
  have "explain_url (model ?g) =
          ''http://'' @ str_host (explainer_host (model ?g)) @ ''/v1/models/'' @ name (model ?g)
             @ '':explain''"
    using G 2 by blast
  then have b: "explain_url (model ?g) = ''http://explainer/v1/models/m:explain''"
    using 4 by (rule trans)
  have "calls (snd (explain stub_env ?g (VDict []))) =
          calls ?g @ [HttpFetch (explain_url (model ?g)) ''POST'' (timeout (model ?g)) ''{}'']"
    using G 6 7 by blast
  then have e: "calls (snd (explain stub_env ?g (VDict []))) =
          [HttpFetch ''http://explainer/v1/models/m:explain'' ''POST'' 600 ''{}'']"
    using b 5 8 by simp
  have "\<exists>target. calls (snd (predict stub_env ?g (VDict []))) =
            calls ?g @ [GrpcModelInfer target (VDict []) (timeout (model ?g))]"
    using G 1 by blast
  then have c: "\<exists>target. calls (snd (predict stub_env ?g (VDict []))) =
            calls ?g @ [GrpcModelInfer target (VDict []) 600]"
    unfolding 5 .
  have d: "filter is_grpc (calls (snd (predict stub_env ?h (VDict [])))) = filter is_grpc (calls ?h)"
    using H 3 by blast
  from e a c d show ?thesis by (intro conjI)
qed

subsection \<open>C10: the two host guards\<close>



end
